theory Spec2Isabelle
  imports Complex_Main "HOL-Library.AList"
begin

section \<open>The OpenAI adapter of Lusat (src/adapters/openai/index.ts)\<close>

text \<open>
  The adapter has three functions: \<open>gptFunctions\<close> exports a registry of actions as
  function descriptors, \<open>gptFunctionCallToWorkflow\<close> turns one function call of the
  model into a one-step workflow, and \<open>callFunction\<close> runs the call at once.
  Each is embedded below as a HOL function, statement by statement.
\<close>

subsection \<open>JavaScript values\<close>

text \<open>
  The values that flow through the adapter: what \<open>JSON.parse\<close> returns, what a
  validator or a handler returns, and the object literals the adapter builds. An object
  is the list of its own enumerable properties in enumeration order; a property whose
  value is \<open>undefined\<close> is an entry of the list holding \<open>JUndefined\<close>, a property
  that the object does not have is no entry at all. Nothing in the adapter computes with
  numbers, so a number is carried as the real it denotes.
\<close>

datatype jsval =
    JUndefined
  | JNull
  | JBoolean bool
  | JNumber real
  | JString string
  | JArray "jsval list"
  | JObject "(string \<times> jsval) list"

type_synonym object = "(string \<times> jsval) list"

text \<open>\<open>Object.hasOwn(o, k)\<close>, and the value of the own property \<open>k\<close> of \<open>o\<close>.\<close>

definition hasOwn :: "jsval \<Rightarrow> string \<Rightarrow> bool" where
  "hasOwn v k = (case v of JObject ps \<Rightarrow> k \<in> fst ` set ps | _ \<Rightarrow> False)"

definition getProp :: "jsval \<Rightarrow> string \<Rightarrow> jsval" where
  "getProp v k =
     (case v of
        JObject ps \<Rightarrow> (case map_of ps k of Some w \<Rightarrow> w | None \<Rightarrow> JUndefined)
      | _ \<Rightarrow> JUndefined)"

text \<open>
  \<open>Object.entries\<close> lists the properties; \<open>Object.fromEntries\<close> builds an object by
  assigning the pairs one after the other, so a key that occurs again overwrites the
  value at the place of its first occurrence.
\<close>

definition Object_entries :: "object \<Rightarrow> (string \<times> jsval) list" where
  "Object_entries ob = ob"

definition Object_fromEntries :: "(string \<times> jsval) list \<Rightarrow> object" where
  "Object_fromEntries es = fold (\<lambda>(k, v) ob. AList.update k v ob) es []"

subsection \<open>Actions, registries and call records\<close>

text \<open>
  The types \<open>Actions\<close> and \<open>Workflow\<close> are imported by the adapter from the core; the
  adapter reads of an action its \<open>name\<close>, \<open>description\<close>, \<open>_args\<close> and \<open>_inputParser\<close>
  and calls its \<open>call\<close> method. \<open>_args\<close> is compared with \<open>'unary'\<close> only.
\<close>

datatype args = Nullary | Unary

text \<open>
  A validator (a Zod type): \<open>parse\<close> returns the parsed value or throws a \<open>ZodError\<close>
  with its issues.
\<close>

type_synonym issues = "string list"

record ZodType =
  parse :: "jsval \<Rightarrow> issues + jsval"

text \<open>The failures of the adapter, by the place that raises them.\<close>

datatype error =
    MissingNameError                \<comment> \<open>\<open>throw new Error('Missing function name.')\<close>\<close>
  | UnknownActionError string       \<comment> \<open>\<open>throw new Error(`Unknown function "${name}".`)\<close>\<close>
  | MalformedArgumentsError         \<comment> \<open>the \<open>SyntaxError\<close> of \<open>JSON.parse\<close>\<close>
  | InputValidationError issues     \<comment> \<open>the \<open>ZodError\<close> of \<open>_inputParser.parse\<close>\<close>
  | HandlerError jsval              \<comment> \<open>what the handler throws or rejects with\<close>
  | SchemaConversionError jsval     \<comment> \<open>what \<open>zodToJsonSchema\<close> throws\<close>
  | TypeError                       \<comment> \<open>the \<open>TypeError\<close> of the JavaScript runtime\<close>

text \<open>
  A handler receives the arguments of the call and the state of the world \<open>'s\<close>; it
  returns (\<open>Inr\<close>) or throws (\<open>Inl\<close>), and leaves a new state. The adapter never
  names the handler: it reaches it through \<open>call\<close>, modelled below.
\<close>

type_synonym 's handler = "jsval list \<Rightarrow> 's \<Rightarrow> (jsval + jsval) \<times> 's"

record 's action =
  action_name :: "string option"
  action_description :: "string option"
  action_args :: args
  action_inputParser :: ZodType
  action_handler :: "'s handler"

text \<open>
  A registry is a plain object, written as an object literal in the example of the
  source's documentation: its own properties are the actions, listed here in the order
  of \<open>Object.entries\<close>, and its prototype is \<open>Object.prototype\<close>.
\<close>

type_synonym 's Actions = "(string \<times> 's action) list"

text \<open>
  The property read \<open>actions[name]\<close> finds the own property of that name, and when
  there is none the member of \<open>Object.prototype\<close> of that name; it is
  \<open>undefined\<close> (\<open>None\<close>) when there is neither. \<open>Object_prototype\<close> lists the
  names of the members of \<open>Object.prototype\<close>. Each member is truthy and has no
  property \<open>_args\<close>: eleven are functions, and \<open>__proto__\<close> reads as
  \<open>Object.prototype\<close> itself.
\<close>

definition Object_prototype :: "string list" where
  "Object_prototype =
     [''constructor'', ''hasOwnProperty'', ''isPrototypeOf'', ''propertyIsEnumerable'',
      ''toLocaleString'', ''toString'', ''valueOf'',
      ''__defineGetter__'', ''__defineSetter__'', ''__lookupGetter__'', ''__lookupSetter__'',
      ''__proto__'']"

datatype 's property = Own "'s action" | Inherited string

definition actions_get :: "'s Actions \<Rightarrow> string \<Rightarrow> 's property option" where
  "actions_get actions n =
     (case map_of actions n of
        Some a \<Rightarrow> Some (Own a)
      | None \<Rightarrow> if n \<in> set Object_prototype then Some (Inherited n) else None)"

text \<open>
  \<open>action.call()\<close> where \<open>action\<close> is the inherited member of the name \<open>m\<close>.
  For a function member, \<open>call\<close> is \<open>Function.prototype.call\<close>: it applies the
  member to the receiver \<open>undefined\<close> and no arguments. \<open>Object()\<close> returns a new
  empty object; \<open>Object.prototype.toString\<close> returns \<open>'[object Undefined]'\<close> for
  the receiver \<open>undefined\<close>; \<open>isPrototypeOf\<close> returns \<open>false\<close> for an argument
  that is no object, before it looks at its receiver; every other function member
  converts its receiver to an object and throws a \<open>TypeError\<close> on \<open>undefined\<close>.
  \<open>Object.prototype\<close>, the value of \<open>__proto__\<close>, has no property \<open>call\<close>, and the
  call of \<open>undefined\<close> throws a \<open>TypeError\<close>. No state is touched.
\<close>

definition inherited_call :: "string \<Rightarrow> error + jsval" where
  "inherited_call m =
     (if m = ''constructor'' then Inr (JObject [])
      else if m = ''toString'' then Inr (JString ''[object Undefined]'')
      else if m = ''isPrototypeOf'' then Inr (JBoolean False)
      else Inl TypeError)"

record ChatCompletionRequestMessageFunctionCall =
  name :: "string option"
  arguments :: "string option"

subsection \<open>The call method of an action\<close>

text \<open>
  Modelled from the spec: the invocation of the handler of an action, which the core
  (\<open>~/core/action\<close>, not among the sources) performs inside the \<open>call\<close> method.
  By the specification the handler is invoked with the arguments given and produces its
  result; a failure of the handler (a raised error or a rejected completion) is neither
  caught nor wrapped and reaches the caller as the handler's failure.
\<close>

definition invoke :: "'s action \<Rightarrow> jsval list \<Rightarrow> 's \<Rightarrow> (error + jsval) \<times> 's" where
  "invoke a argv s =
     (case action_handler a argv s of
        (Inl thrown, s') \<Rightarrow> (Inl (HandlerError thrown), s')
      | (Inr result, s') \<Rightarrow> (Inr result, s'))"

text \<open>
  Modelled from the spec: the \<open>call\<close> method of an action, defined in the core
  (\<open>~/core/action\<close>), which is not among the sources. By the specification the input
  validator parses the value given to a unary action, a mismatch raises the validation
  error with the validator's detail before anything is invoked, and the handler is
  invoked with the validated input (unary) or with no arguments (nullary).
\<close>

definition call :: "'s action \<Rightarrow> jsval list \<Rightarrow> 's \<Rightarrow> (error + jsval) \<times> 's" where
  "call a argv s =
     (if action_args a = Unary
      then (case parse (action_inputParser a) (case argv of [] \<Rightarrow> JUndefined | v # _ \<Rightarrow> v) of
              Inl d \<Rightarrow> (Inl (InputValidationError d), s)
            | Inr input \<Rightarrow> invoke a [input] s)
      else invoke a [] s)"

subsection \<open>gptFunctions\<close>

text \<open>
  \<open>zodToJsonSchema\<close> is a function of an external library: it is a parameter \<open>z\<close>,
  which returns the schema object or throws. The callback of \<open>map\<close> is \<open>gptFunction\<close>;
  of its three properties only \<open>parameters\<close> can throw.
\<close>

definition gptFunction ::
  "(ZodType \<Rightarrow> jsval + object) \<Rightarrow> string \<Rightarrow> 's action \<Rightarrow> error + jsval" where
  "gptFunction z key a =
     (case (if action_args a = Unary
            then (case z (action_inputParser a) of
                    Inl thrown \<Rightarrow> Inl (SchemaConversionError thrown)
                  | Inr schema \<Rightarrow>
                      Inr (Object_fromEntries
                             (filter (\<lambda>(k, v). k \<noteq> ''$schema'') (Object_entries schema))))
            else Inr [(''type'', JString ''object''),
                      (''properties'', JObject []),
                      (''required'', JArray [])]) of
        Inl e \<Rightarrow> Inl e
      | Inr ps \<Rightarrow>
          Inr (JObject
            [(''name'', JString (case action_name a of Some n \<Rightarrow> n | None \<Rightarrow> key)),
             (''description'',
                (case action_description a of Some d \<Rightarrow> JString d | None \<Rightarrow> JUndefined)),
             (''parameters'', JObject ps)]))"

text \<open>
  \<open>Array.prototype.map\<close> with a callback that may throw: the callback runs on the
  elements from left to right, and the first throw ends the whole \<open>map\<close>.
\<close>

fun Array_map :: "('entry \<Rightarrow> error + jsval) \<Rightarrow> 'entry list \<Rightarrow> error + jsval list" where
  "Array_map callback [] = Inr []"
| "Array_map callback (entry # rest) =
     (case callback entry of
        Inl thrown \<Rightarrow> Inl thrown
      | Inr d \<Rightarrow>
          (case Array_map callback rest of
             Inl thrown \<Rightarrow> Inl thrown
           | Inr ds \<Rightarrow> Inr (d # ds)))"

definition gptFunctions ::
  "(ZodType \<Rightarrow> jsval + object) \<Rightarrow> 's Actions \<Rightarrow> error + jsval list" where
  "gptFunctions z actions = Array_map (\<lambda>(key, a). gptFunction z key a) actions"

subsection \<open>gptFunctionCallToWorkflow and callFunction\<close>

text \<open>
  \<open>JSON.parse\<close> is a parameter: \<open>None\<close> is its \<open>SyntaxError\<close>. \<open>!gptFunctionCall.name\<close>
  holds for an absent name and for the empty string. \<open>!action\<close> holds only when the
  property read gives \<open>undefined\<close>; for an inherited member
  \<open>action._args === 'unary'\<close> is false. \<open>argumentsText\<close> is the
  expression \<open>gptFunctionCall.arguments ?? '{}'\<close>. \<open>let input\<close> starts as
  \<open>undefined\<close>, and the object literal \<open>{ action: ..., input }\<close> has both properties.
\<close>

definition argumentsText :: "ChatCompletionRequestMessageFunctionCall \<Rightarrow> string" where
  "argumentsText gptFunctionCall =
     (case arguments gptFunctionCall of None \<Rightarrow> ''{}'' | Some t \<Rightarrow> t)"

definition gptFunctionCallToWorkflow ::
  "(string \<Rightarrow> jsval option) \<Rightarrow> ChatCompletionRequestMessageFunctionCall \<Rightarrow> 's Actions
     \<Rightarrow> error + jsval list" where
  "gptFunctionCallToWorkflow JSON_parse gptFunctionCall actions =
     (case name gptFunctionCall of
        None \<Rightarrow> Inl MissingNameError
      | Some n \<Rightarrow>
          if n = [] then Inl MissingNameError
          else
            (case actions_get actions n of
               None \<Rightarrow> Inl (UnknownActionError n)
             | Some action \<Rightarrow>
                 (case (case action of
                          Own a \<Rightarrow>
                            if action_args a = Unary
                            then (case JSON_parse (argumentsText gptFunctionCall) of
                                    None \<Rightarrow> Inl MalformedArgumentsError
                                  | Some v \<Rightarrow>
                                      (case parse (action_inputParser a) v of
                                         Inl d \<Rightarrow> Inl (InputValidationError d)
                                       | Inr w \<Rightarrow> Inr w))
                            else Inr JUndefined
                        | Inherited m \<Rightarrow> Inr JUndefined) of
                    Inl e \<Rightarrow> Inl e
                  | Inr input \<Rightarrow>
                      Inr [JObject [(''action'', JString n), (''input'', input)]])))"

text \<open>
  \<open>callFunction\<close> is asynchronous: a throw is the rejection of its promise, and the
  awaited result of \<open>call\<close> is the result of the handler.
\<close>

definition callFunction ::
  "(string \<Rightarrow> jsval option) \<Rightarrow> ChatCompletionRequestMessageFunctionCall \<Rightarrow> 's Actions
     \<Rightarrow> 's \<Rightarrow> (error + jsval) \<times> 's" where
  "callFunction JSON_parse gptFunctionCall actions s =
     (case name gptFunctionCall of
        None \<Rightarrow> (Inl MissingNameError, s)
      | Some n \<Rightarrow>
          if n = [] then (Inl MissingNameError, s)
          else
            (case actions_get actions n of
               None \<Rightarrow> (Inl (UnknownActionError n), s)
             | Some action \<Rightarrow>
                 (case (case action of
                          Own a \<Rightarrow>
                            if action_args a = Unary
                            then (case JSON_parse (argumentsText gptFunctionCall) of
                                    None \<Rightarrow> (Inl MalformedArgumentsError, s)
                                  | Some v \<Rightarrow> call a [v] s)
                            else call a [] s
                        | Inherited m \<Rightarrow> (inherited_call m, s)) of
                    (Inl e, s') \<Rightarrow> (Inl e, s')
                  | (Inr result, s') \<Rightarrow>
                      (Inr (JObject [(''action'', JString n), (''result'', result)]), s'))))"

subsection \<open>A small registry to evaluate on\<close>

text \<open>
  \<open>getWeather\<close> is unary: its validator accepts an object with a string \<open>location\<close>
  and keeps that property only; its handler counts its invocations in the state and
  returns \<open>{tempC: 20}\<close>. \<open>ping\<close> is nullary and counts as well. \<open>anything\<close> is unary
  with a validator that accepts every value, and carries a display name.
\<close>

definition locationParser :: ZodType where
  "locationParser =
     \<lparr>parse = (\<lambda>v. case getProp v ''location'' of
                      JString l \<Rightarrow> Inr (JObject [(''location'', JString l)])
                    | _ \<Rightarrow> Inl [''location: Required''])\<rparr>"

definition anyParser :: ZodType where
  "anyParser = \<lparr>parse = (\<lambda>v. Inr v)\<rparr>"

definition countingHandler :: "jsval \<Rightarrow> nat handler" where
  "countingHandler r = (\<lambda>argv n. (Inr r, Suc n))"

definition exampleActions :: "nat Actions" where
  "exampleActions =
     [(''getWeather'',
        \<lparr>action_name = None, action_description = Some ''Get the current weather'',
         action_args = Unary, action_inputParser = locationParser,
         action_handler = countingHandler (JObject [(''tempC'', JNumber 20)])\<rparr>),
      (''ping'',
        \<lparr>action_name = None, action_description = None,
         action_args = Nullary, action_inputParser = anyParser,
         action_handler = countingHandler (JString ''pong'')\<rparr>),
      (''anything'',
        \<lparr>action_name = Some ''echo'', action_description = None,
         action_args = Unary, action_inputParser = anyParser,
         action_handler = countingHandler JNull\<rparr>)]"

text \<open>A fragment of \<open>JSON.parse\<close>, and a converter that attaches the dialect field.\<close>

definition exampleJSON_parse :: "string \<Rightarrow> jsval option" where
  "exampleJSON_parse t =
     (if t = ''{}'' then Some (JObject [])
      else if t = ''{\"location\":\"Paris\"}''
        then Some (JObject [(''location'', JString ''Paris'')])
      else if t = ''null'' then Some JNull
      else None)"

definition exampleSchema :: "ZodType \<Rightarrow> jsval + object" where
  "exampleSchema p =
     Inr [(''type'', JString ''object''),
          (''properties'', JObject []),
          (''$schema'', JString ''http://json-schema.org/draft-07/schema#''),
          (''additionalProperties'', JBoolean False)]"

text \<open>What \<open>gptFunctions\<close> returns on this registry with this converter.\<close>

definition exampleDescriptors :: "jsval list" where
  "exampleDescriptors =
     [JObject
        [(''name'', JString ''getWeather''),
         (''description'', JString ''Get the current weather''),
         (''parameters'',
            JObject [(''type'', JString ''object''), (''properties'', JObject []),
                     (''additionalProperties'', JBoolean False)])],
      JObject
        [(''name'', JString ''ping''), (''description'', JUndefined),
         (''parameters'',
            JObject [(''type'', JString ''object''), (''properties'', JObject []),
                     (''required'', JArray [])])],
      JObject
        [(''name'', JString ''echo''), (''description'', JUndefined),
         (''parameters'',
            JObject [(''type'', JString ''object''), (''properties'', JObject []),
                     (''additionalProperties'', JBoolean False)])]]"

section \<open>Properties\<close>

subsection \<open>The stages of a call\<close>

text \<open>
  Both inbound functions pass through the same stages. One lemma for each stage and
  each function gives the outcome there; \<open>call_stage_cases\<close> says that the stages
  cover every call record, registry and decoder.
\<close>

lemma actions_get_own: "map_of actions n = Some a \<Longrightarrow> actions_get actions n = Some (Own a)"
  by (simp add: actions_get_def)

lemma actions_get_inherited:
  "map_of actions n = None \<Longrightarrow> n \<in> set Object_prototype \<Longrightarrow>
   actions_get actions n = Some (Inherited n)"
  by (simp add: actions_get_def)

lemma actions_get_undefined:
  "map_of actions n = None \<Longrightarrow> n \<notin> set Object_prototype \<Longrightarrow> actions_get actions n = None"
  by (simp add: actions_get_def)

lemma parse_missing:
  "name c = None \<or> name c = Some [] \<Longrightarrow> gptFunctionCallToWorkflow jp c actions = Inl MissingNameError"
  by (auto simp: gptFunctionCallToWorkflow_def)

lemma exec_missing:
  "name c = None \<or> name c = Some [] \<Longrightarrow> callFunction jp c actions s = (Inl MissingNameError, s)"
  by (auto simp: callFunction_def)

lemma parse_unknown:
  "name c = Some n \<Longrightarrow> n \<noteq> [] \<Longrightarrow> map_of actions n = None \<Longrightarrow>
   n \<notin> set Object_prototype \<Longrightarrow>
   gptFunctionCallToWorkflow jp c actions = Inl (UnknownActionError n)"
  by (simp add: gptFunctionCallToWorkflow_def actions_get_undefined)

lemma exec_unknown:
  "name c = Some n \<Longrightarrow> n \<noteq> [] \<Longrightarrow> map_of actions n = None \<Longrightarrow>
   n \<notin> set Object_prototype \<Longrightarrow>
   callFunction jp c actions s = (Inl (UnknownActionError n), s)"
  by (simp add: callFunction_def actions_get_undefined)

lemma parse_inherited:
  "name c = Some n \<Longrightarrow> map_of actions n = None \<Longrightarrow> n \<in> set Object_prototype \<Longrightarrow>
   gptFunctionCallToWorkflow jp c actions
     = Inr [JObject [(''action'', JString n), (''input'', JUndefined)]]"
  by (auto simp: gptFunctionCallToWorkflow_def actions_get_inherited Object_prototype_def)

lemma exec_inherited:
  "name c = Some n \<Longrightarrow> map_of actions n = None \<Longrightarrow> n \<in> set Object_prototype \<Longrightarrow>
   callFunction jp c actions s =
     (case inherited_call n of
        Inl e \<Rightarrow> (Inl e, s)
      | Inr r \<Rightarrow> (Inr (JObject [(''action'', JString n), (''result'', r)]), s))"
  by (auto simp: callFunction_def actions_get_inherited Object_prototype_def
      split: sum.splits)

lemma parse_malformed:
  "name c = Some n \<Longrightarrow> n \<noteq> [] \<Longrightarrow> map_of actions n = Some a \<Longrightarrow> action_args a = Unary \<Longrightarrow>
   jp (argumentsText c) = None \<Longrightarrow>
   gptFunctionCallToWorkflow jp c actions = Inl MalformedArgumentsError"
  by (simp add: gptFunctionCallToWorkflow_def actions_get_own)

lemma exec_malformed:
  "name c = Some n \<Longrightarrow> n \<noteq> [] \<Longrightarrow> map_of actions n = Some a \<Longrightarrow> action_args a = Unary \<Longrightarrow>
   jp (argumentsText c) = None \<Longrightarrow>
   callFunction jp c actions s = (Inl MalformedArgumentsError, s)"
  by (simp add: callFunction_def actions_get_own)

lemma parse_invalid:
  "name c = Some n \<Longrightarrow> n \<noteq> [] \<Longrightarrow> map_of actions n = Some a \<Longrightarrow> action_args a = Unary \<Longrightarrow>
   jp (argumentsText c) = Some v \<Longrightarrow> parse (action_inputParser a) v = Inl d \<Longrightarrow>
   gptFunctionCallToWorkflow jp c actions = Inl (InputValidationError d)"
  by (simp add: gptFunctionCallToWorkflow_def actions_get_own)

lemma exec_invalid:
  "name c = Some n \<Longrightarrow> n \<noteq> [] \<Longrightarrow> map_of actions n = Some a \<Longrightarrow> action_args a = Unary \<Longrightarrow>
   jp (argumentsText c) = Some v \<Longrightarrow> parse (action_inputParser a) v = Inl d \<Longrightarrow>
   callFunction jp c actions s = (Inl (InputValidationError d), s)"
  by (simp add: callFunction_def call_def actions_get_own)

lemma parse_unary:
  "name c = Some n \<Longrightarrow> n \<noteq> [] \<Longrightarrow> map_of actions n = Some a \<Longrightarrow> action_args a = Unary \<Longrightarrow>
   jp (argumentsText c) = Some v \<Longrightarrow> parse (action_inputParser a) v = Inr w \<Longrightarrow>
   gptFunctionCallToWorkflow jp c actions = Inr [JObject [(''action'', JString n), (''input'', w)]]"
  by (simp add: gptFunctionCallToWorkflow_def actions_get_own)

lemma exec_unary:
  "name c = Some n \<Longrightarrow> n \<noteq> [] \<Longrightarrow> map_of actions n = Some a \<Longrightarrow> action_args a = Unary \<Longrightarrow>
   jp (argumentsText c) = Some v \<Longrightarrow> parse (action_inputParser a) v = Inr w \<Longrightarrow>
   callFunction jp c actions s =
     (case action_handler a [w] s of
        (Inl x, s') \<Rightarrow> (Inl (HandlerError x), s')
      | (Inr r, s') \<Rightarrow> (Inr (JObject [(''action'', JString n), (''result'', r)]), s'))"
  by (simp add: callFunction_def call_def invoke_def actions_get_own
      split: prod.splits sum.splits)

lemma parse_nullary:
  "name c = Some n \<Longrightarrow> n \<noteq> [] \<Longrightarrow> map_of actions n = Some a \<Longrightarrow> action_args a = Nullary \<Longrightarrow>
   gptFunctionCallToWorkflow jp c actions = Inr [JObject [(''action'', JString n), (''input'', JUndefined)]]"
  by (simp add: gptFunctionCallToWorkflow_def actions_get_own)

lemma exec_nullary:
  "name c = Some n \<Longrightarrow> n \<noteq> [] \<Longrightarrow> map_of actions n = Some a \<Longrightarrow> action_args a = Nullary \<Longrightarrow>
   callFunction jp c actions s =
     (case action_handler a [] s of
        (Inl x, s') \<Rightarrow> (Inl (HandlerError x), s')
      | (Inr r, s') \<Rightarrow> (Inr (JObject [(''action'', JString n), (''result'', r)]), s'))"
  by (simp add: callFunction_def call_def invoke_def actions_get_own
      split: prod.splits sum.splits)

lemma call_stage_cases [case_names missing unknown inherited malformed invalid unary nullary]:
  fixes c :: ChatCompletionRequestMessageFunctionCall and actions :: "'s Actions"
  obtains
    "name c = None \<or> name c = Some []"
  | n where "name c = Some n" "n \<noteq> []" "map_of actions n = None"
      "n \<notin> set Object_prototype"
  | n where "name c = Some n" "n \<noteq> []" "map_of actions n = None"
      "n \<in> set Object_prototype"
  | n a where "name c = Some n" "n \<noteq> []" "map_of actions n = Some a"
      "action_args a = Unary" "jp (argumentsText c) = None"
  | n a v d where "name c = Some n" "n \<noteq> []" "map_of actions n = Some a"
      "action_args a = Unary" "jp (argumentsText c) = Some v"
      "parse (action_inputParser a) v = Inl d"
  | n a v w where "name c = Some n" "n \<noteq> []" "map_of actions n = Some a"
      "action_args a = Unary" "jp (argumentsText c) = Some v"
      "parse (action_inputParser a) v = Inr w"
  | n a where "name c = Some n" "n \<noteq> []" "map_of actions n = Some a"
      "action_args a = Nullary"
proof (cases "name c")
  case None
  then show ?thesis using that(1) by simp
next
  case (Some n)
  show ?thesis
  proof (cases "n = []")
    case True
    then show ?thesis using Some that(1) by simp
  next
    case ne: False
    show ?thesis
    proof (cases "map_of actions n")
      case None
      then show ?thesis using Some ne that(2) that(3) by blast
    next
      case (Some a)
      note look = this
      show ?thesis
      proof (cases "action_args a")
        case Nullary
        then show ?thesis using \<open>name c = Some n\<close> ne look that(7) by simp
      next
        case Unary
        show ?thesis
        proof (cases "jp (argumentsText c)")
          case None
          then show ?thesis using \<open>name c = Some n\<close> ne look Unary that(4) by simp
        next
          case (Some v)
          then show ?thesis
            using \<open>name c = Some n\<close> ne look Unary that(5) that(6)
            by (cases "parse (action_inputParser a) v") blast+
        qed
      qed
    qed
  qed
qed

lemma handler_result_no_early_error:
  "(case action_handler a argv s of
      (Inl x, s') \<Rightarrow> (Inl (HandlerError x), s')
    | (Inr r, s') \<Rightarrow> (Inr (f r), s')) = (Inl e, t) \<Longrightarrow> \<exists>x. e = HandlerError x"
  by (auto split: prod.splits sum.splits)

lemma map_of_map_entries:
  "map_of (map (\<lambda>(k, a). (k, f k a)) xs) n = map_option (f n) (map_of xs n)"
  by (induction xs) auto

subsection \<open>The export, entry by entry\<close>

text \<open>
  \<open>Array_map\<close> keeps length and positions; without repeated keys
  \<open>Object.fromEntries\<close> returns the entries it is given.
\<close>

lemma Array_map_length: "Array_map f xs = Inr ys \<Longrightarrow> length ys = length xs"
  by (induction xs arbitrary: ys) (auto split: sum.splits)

lemma Array_map_nth: "Array_map f xs = Inr ys \<Longrightarrow> i < length xs \<Longrightarrow> f (xs ! i) = Inr (ys ! i)"
proof (induction xs arbitrary: ys i)
  case Nil
  then show ?case by simp
next
  case (Cons x xs)
  then show ?case by (cases i) (auto split: sum.splits)
qed

lemma Array_map_Inl: "Array_map f xs = Inl e \<Longrightarrow> \<exists>x\<in>set xs. f x = Inl e"
  by (induction xs) (auto split: sum.splits)

lemma Array_map_total: "(\<And>x. x \<in> set xs \<Longrightarrow> \<exists>y. f x = Inr y) \<Longrightarrow> \<exists>ys. Array_map f xs = Inr ys"
proof (induction xs)
  case Nil
  then show ?case by simp
next
  case (Cons x xs)
  then obtain y ys where "f x = Inr y" "Array_map f xs = Inr ys"
    by (meson list.set_intros)
  then show ?case by simp
qed

lemma fold_update_keys:
  "fst ` set (fold (\<lambda>(k, v) ob. AList.update k v ob) es acc) = fst ` set acc \<union> fst ` set es"
proof (induction es arbitrary: acc)
  case Nil
  then show ?case by simp
next
  case (Cons e es)
  obtain k v where e: "e = (k, v)" by (cases e)
  have "fst ` set (fold (\<lambda>(k, v) ob. AList.update k v ob) es (AList.update k v acc))
      = fst ` set (AList.update k v acc) \<union> fst ` set es"
    by (rule Cons.IH)
  also have "fst ` set (AList.update k v acc) = {k} \<union> fst ` set acc"
    by (rule AList.dom_update)
  finally show ?case using e by simp
qed

lemma update_fresh: "k \<notin> fst ` set acc \<Longrightarrow> AList.update k v acc = acc @ [(k, v)]"
  by (induction acc) auto

lemma fold_update_distinct:
  "distinct (map fst es) \<Longrightarrow> fst ` set acc \<inter> fst ` set es = {} \<Longrightarrow>
   fold (\<lambda>(k, v) ob. AList.update k v ob) es acc = acc @ es"
proof (induction es arbitrary: acc)
  case Nil
  then show ?case by simp
next
  case (Cons e es)
  obtain k v where e: "e = (k, v)" by (cases e)
  have fresh: "k \<notin> fst ` set acc" using Cons.prems(2) e by auto
  have "fold (\<lambda>(k, v) ob. AList.update k v ob) es (acc @ [(k, v)]) = (acc @ [(k, v)]) @ es"
  proof (rule Cons.IH)
    show "distinct (map fst es)" using Cons.prems(1) by simp
    show "fst ` set (acc @ [(k, v)]) \<inter> fst ` set es = {}"
      using Cons.prems e by auto
  qed
  then show ?case using e fresh by (simp add: update_fresh)
qed

lemma fromEntries_keys: "fst ` set (Object_fromEntries es) = fst ` set es"
  by (simp add: Object_fromEntries_def fold_update_keys)

lemma fromEntries_distinct: "distinct (map fst es) \<Longrightarrow> Object_fromEntries es = es"
  using fold_update_distinct [of es "[]"] by (simp add: Object_fromEntries_def)

lemma gptFunction_nullary:
  "action_args a = Nullary \<Longrightarrow>
   gptFunction z key a =
     Inr (JObject
       [(''name'', JString (case action_name a of Some n \<Rightarrow> n | None \<Rightarrow> key)),
        (''description'',
           (case action_description a of Some d \<Rightarrow> JString d | None \<Rightarrow> JUndefined)),
        (''parameters'', JObject [(''type'', JString ''object''),
                                  (''properties'', JObject []),
                                  (''required'', JArray [])])])"
  by (simp add: gptFunction_def)

lemma gptFunction_unary:
  "action_args a = Unary \<Longrightarrow> z (action_inputParser a) = Inr schema \<Longrightarrow>
   gptFunction z key a =
     Inr (JObject
       [(''name'', JString (case action_name a of Some n \<Rightarrow> n | None \<Rightarrow> key)),
        (''description'',
           (case action_description a of Some d \<Rightarrow> JString d | None \<Rightarrow> JUndefined)),
        (''parameters'',
           JObject (Object_fromEntries (filter (\<lambda>(k, v). k \<noteq> ''$schema'') schema)))])"
  by (simp add: gptFunction_def Object_entries_def)

lemma gptFunction_throws:
  "action_args a = Unary \<Longrightarrow> z (action_inputParser a) = Inl x \<Longrightarrow>
   gptFunction z key a = Inl (SchemaConversionError x)"
  by (simp add: gptFunction_def)

lemma gptFunction_cases [case_names nullary unary throws]:
  obtains "action_args a = Nullary"
  | schema where "action_args a = Unary" "z (action_inputParser a) = Inr schema"
  | x where "action_args a = Unary" "z (action_inputParser a) = Inl x"
  by (cases "action_args a"; cases "z (action_inputParser a)") auto

lemma gptFunction_name:
  "gptFunction z key a = Inr d \<Longrightarrow>
   getProp d ''name'' = JString (case action_name a of Some n \<Rightarrow> n | None \<Rightarrow> key)"
  by (cases rule: gptFunction_cases [where a = a and z = z])
    (auto simp: gptFunction_nullary gptFunction_unary gptFunction_throws getProp_def)

lemma gptFunction_parameters_unary:
  "gptFunction z key a = Inr d \<Longrightarrow> action_args a = Unary \<Longrightarrow>
   z (action_inputParser a) = Inr schema \<Longrightarrow>
   getProp d ''parameters''
     = JObject (Object_fromEntries (filter (\<lambda>(k, v). k \<noteq> ''$schema'') schema))"
  by (auto simp: gptFunction_unary getProp_def)

lemma gptFunction_parameters_nullary:
  "gptFunction z key a = Inr d \<Longrightarrow> action_args a = Nullary \<Longrightarrow>
   getProp d ''parameters''
     = JObject [(''type'', JString ''object''),
                (''properties'', JObject []),
                (''required'', JArray [])]"
  by (auto simp: gptFunction_nullary getProp_def)

lemma gptFunction_Inl:
  "gptFunction z key a = Inl e \<Longrightarrow>
   action_args a = Unary \<and> (\<exists>x. z (action_inputParser a) = Inl x \<and> e = SchemaConversionError x)"
  by (cases rule: gptFunction_cases [where a = a and z = z])
    (auto simp: gptFunction_nullary gptFunction_unary gptFunction_throws)

lemma gptFunctions_nth:
  "gptFunctions z actions = Inr ds \<Longrightarrow> i < length actions \<Longrightarrow>
   gptFunction z (fst (actions ! i)) (snd (actions ! i)) = Inr (ds ! i)"
  using Array_map_nth [of "\<lambda>(key, a). gptFunction z key a" actions ds i]
  by (simp add: gptFunctions_def case_prod_beta)

lemma example_export:
  "gptFunctions exampleSchema exampleActions = Inr exampleDescriptors"
  by (simp add: gptFunctions_def gptFunction_def exampleActions_def exampleSchema_def
      Object_fromEntries_def Object_entries_def exampleDescriptors_def)

subsection \<open>The two functions side by side\<close>

text \<open>
  The parser's failure is the executor's failure, and the executor has two failures
  more: what the handler throws, and the \<open>TypeError\<close> of a call of an inherited
  member. The parser never looks at a handler. A success of the executor is one
  invocation of the handler of an own action, or the call of an inherited member, which
  invokes no handler.
\<close>

lemma inherited_call_cases:
  "inherited_call m = Inl TypeError \<or> (\<exists>r. inherited_call m = Inr r)"
  by (simp add: inherited_call_def)

lemma parser_failure_is_callFunction_failure:
  assumes "gptFunctionCallToWorkflow jp c actions = Inl e"
  shows "callFunction jp c actions s = (Inl e, s)"
proof (cases rule: call_stage_cases [where c = c and actions = actions and jp = jp])
  case missing
  then show ?thesis using assms by (auto simp: parse_missing exec_missing)
next
  case (unknown m)
  then show ?thesis using assms by (auto simp: parse_unknown exec_unknown)
next
  case (inherited m)
  then show ?thesis using assms by (simp add: parse_inherited)
next
  case (malformed m b)
  then show ?thesis using assms by (auto simp: parse_malformed exec_malformed)
next
  case (invalid m b u d')
  then show ?thesis using assms by (auto simp: parse_invalid exec_invalid)
next
  case (unary m b u w)
  then show ?thesis using assms by (simp add: parse_unary)
next
  case (nullary m b)
  then show ?thesis using assms by (simp add: parse_nullary)
qed

lemma callFunction_failure_is_parser_failure:
  assumes "fst (callFunction jp c actions s) = Inl e"
    and "\<forall>x. e \<noteq> HandlerError x" and "e \<noteq> TypeError"
  shows "gptFunctionCallToWorkflow jp c actions = Inl e"
proof (cases rule: call_stage_cases [where c = c and actions = actions and jp = jp])
  case missing
  then show ?thesis using assms by (auto simp: parse_missing exec_missing)
next
  case (unknown m)
  then show ?thesis using assms by (auto simp: parse_unknown exec_unknown)
next
  case (inherited m)
  then show ?thesis
    using assms inherited_call_cases [of m] by (auto simp: exec_inherited)
next
  case (malformed m b)
  then show ?thesis using assms by (auto simp: parse_malformed exec_malformed)
next
  case (invalid m b u d')
  then show ?thesis using assms by (auto simp: parse_invalid exec_invalid)
next
  case (unary m b u w)
  then show ?thesis using assms
    by (auto simp: exec_unary split: prod.splits sum.splits)
next
  case (nullary m b)
  then show ?thesis using assms
    by (auto simp: exec_nullary split: prod.splits sum.splits)
qed

lemma actions_get_map_handler:
  "actions_get (map (\<lambda>(k, a). (k, a\<lparr>action_handler := h k a\<rparr>)) actions) n
     = map_option (\<lambda>p. case p of Own a \<Rightarrow> Own (a\<lparr>action_handler := h n a\<rparr>) | Inherited m \<Rightarrow> Inherited m)
         (actions_get actions n)"
  by (simp add: actions_get_def map_of_map_entries split: option.splits)

lemma parser_ignores_handlers:
  "gptFunctionCallToWorkflow jp c (map (\<lambda>(k, a). (k, a\<lparr>action_handler := h k a\<rparr>)) actions)
     = gptFunctionCallToWorkflow jp c actions"
  by (simp add: gptFunctionCallToWorkflow_def actions_get_map_handler
      split: option.splits property.splits)

lemma callFunction_success_cases:
  assumes "callFunction jp c actions s = (Inr r, s')"
  shows "(\<exists>n a argv res. name c = Some n \<and> map_of actions n = Some a
            \<and> action_handler a argv s = (Inr res, s')
            \<and> r = JObject [(''action'', JString n), (''result'', res)])
         \<or> (\<exists>n res. name c = Some n \<and> map_of actions n = None \<and> n \<in> set Object_prototype
               \<and> inherited_call n = Inr res \<and> s' = s
               \<and> r = JObject [(''action'', JString n), (''result'', res)])"
proof (cases rule: call_stage_cases [where c = c and actions = actions and jp = jp])
  case missing
  then show ?thesis using assms by (auto simp: exec_missing)
next
  case (unknown m)
  then show ?thesis using assms by (auto simp: exec_unknown)
next
  case (inherited m)
  then show ?thesis using assms by (auto simp: exec_inherited split: sum.splits)
next
  case (malformed m b)
  then show ?thesis using assms by (auto simp: exec_malformed)
next
  case (invalid m b u d')
  then show ?thesis using assms by (auto simp: exec_invalid)
next
  case (unary m b u w)
  then show ?thesis using assms
    by (auto simp: exec_unary split: prod.splits sum.splits)
next
  case (nullary m b)
  then show ?thesis using assms
    by (auto simp: exec_nullary split: prod.splits sum.splits)
qed

subsection \<open>The input property of a step\<close>

text \<open>
  C1. The step that \<open>gptFunctionCallToWorkflow\<close> returns is the object literal
  \<open>{ action: gptFunctionCall.name, input }\<close>: it always has an own property
  \<open>input\<close>. For a unary action the value of the property is the result of the
  validator on the decoded arguments; for a nullary action it is \<open>undefined\<close>, so
  the property is present with the value \<open>undefined\<close> and not absent. (A name that
  the registry only inherits gives \<open>undefined\<close> as well.)
\<close>

theorem step_always_has_input:
  "gptFunctionCallToWorkflow jp c actions = Inr w \<longrightarrow>
     (\<exists>n input. name c = Some n
        \<and> w = [JObject [(''action'', JString n), (''input'', input)]]
        \<and> hasOwn (JObject [(''action'', JString n), (''input'', input)]) ''input''
        \<and> (case map_of actions n of
              Some a \<Rightarrow>
                if action_args a = Unary
                then (\<exists>v. jp (argumentsText c) = Some v
                        \<and> parse (action_inputParser a) v = Inr input)
                else input = JUndefined
            | None \<Rightarrow> n \<in> set Object_prototype \<and> input = JUndefined))"
proof (cases rule: call_stage_cases [where c = c and actions = actions and jp = jp])
  case missing
  then show ?thesis by (auto simp: parse_missing)
next
  case (unknown m)
  then show ?thesis by (simp add: parse_unknown)
next
  case (inherited m)
  then show ?thesis by (auto simp: parse_inherited hasOwn_def)
next
  case (malformed m b)
  then show ?thesis by (simp add: parse_malformed)
next
  case (invalid m b u d')
  then show ?thesis by (simp add: parse_invalid)
next
  case (unary m b u w')
  then show ?thesis by (auto simp: parse_unary hasOwn_def)
next
  case (nullary m b)
  then show ?thesis by (auto simp: parse_nullary hasOwn_def)
qed

theorem step_always_has_input_witness:
  "gptFunctionCallToWorkflow exampleJSON_parse
      \<lparr>name = Some ''getWeather'', arguments = Some ''{\"location\":\"Paris\"}''\<rparr>
      exampleActions
     = Inr [JObject [(''action'', JString ''getWeather''),
                     (''input'', JObject [(''location'', JString ''Paris'')])]]
   \<and> hasOwn (JObject [(''action'', JString ''getWeather''),
                       (''input'', JObject [(''location'', JString ''Paris'')])]) ''input''
   \<and> (\<exists>a. map_of exampleActions ''getWeather'' = Some a \<and> action_args a = Unary
          \<and> parse (action_inputParser a) (JObject [(''location'', JString ''Paris'')])
              = Inr (JObject [(''location'', JString ''Paris'')]))"
proof -
  let ?c = "\<lparr>name = Some ''getWeather'', arguments = Some ''{\"location\":\"Paris\"}''\<rparr>"
  have h: "gptFunctionCallToWorkflow exampleJSON_parse ?c exampleActions
     = Inr [JObject [(''action'', JString ''getWeather''),
                     (''input'', JObject [(''location'', JString ''Paris'')])]]"
    by (simp add: gptFunctionCallToWorkflow_def actions_get_def exampleActions_def exampleJSON_parse_def
        argumentsText_def locationParser_def getProp_def)
  have u: "map_option action_args (map_of exampleActions ''getWeather'') = Some Unary"
    by (simp add: exampleActions_def)
  have j: "exampleJSON_parse (argumentsText ?c)
      = Some (JObject [(''location'', JString ''Paris'')])"
    by (simp add: exampleJSON_parse_def argumentsText_def)
  have l: "map_of exampleActions ''getWeather''
      = Some \<lparr>action_name = None, action_description = Some ''Get the current weather'',
         action_args = Unary, action_inputParser = locationParser,
         action_handler = countingHandler (JObject [(''tempC'', JNumber 20)])\<rparr>"
    by (simp add: exampleActions_def)
  from step_always_has_input [of exampleJSON_parse ?c exampleActions] h l
  have "hasOwn (JObject [(''action'', JString ''getWeather''),
                       (''input'', JObject [(''location'', JString ''Paris'')])]) ''input''"
    and "\<exists>v. exampleJSON_parse (argumentsText ?c) = Some v
           \<and> parse locationParser v = Inr (JObject [(''location'', JString ''Paris'')])"
    by auto
  with u j h l show ?thesis by auto
qed

text \<open>
  On the registry above the nullary action \<open>ping\<close> gives a step that has the
  property \<open>input\<close>: the property is not present exactly for the unary actions.
\<close>

theorem nullary_step_input_present:
  "map_option action_args (map_of exampleActions ''ping'') = Some Nullary
   \<and> gptFunctionCallToWorkflow exampleJSON_parse \<lparr>name = Some ''ping'', arguments = None\<rparr>
        exampleActions
      = Inr [JObject [(''action'', JString ''ping''), (''input'', JUndefined)]]
   \<and> hasOwn (JObject [(''action'', JString ''ping''), (''input'', JUndefined)]) ''input''"
  by (simp add: gptFunctionCallToWorkflow_def actions_get_def exampleActions_def hasOwn_def)

subsection \<open>The executor fails as the parser does\<close>


subsection \<open>The order of the checks\<close>

text \<open>
  C3. Both functions are to fail fast in one order: the name, then its lookup in the
  registry (the unknown-action error), then the decoding of the arguments, then the
  validation, then the invocation. The lookup stage is missed at a name that the
  registry only inherits: for \<open>toString\<close>, which is no key of the registry, with
  arguments that are no JSON, the parser reports no error and returns a step, and for
  \<open>constructor\<close> the executor reports no error and returns the empty object that
  \<open>Object()\<close> creates. This holds on the registry above and on the empty registry,
  for every decoder, arguments text and state.
\<close>

theorem inherited_name_is_not_unknown:
  "map_of exampleActions ''toString'' = None
   \<and> map_of exampleActions ''constructor'' = None
   \<and> exampleJSON_parse ''{not json'' = None
   \<and> gptFunctionCallToWorkflow exampleJSON_parse
         \<lparr>name = Some ''toString'', arguments = Some ''{not json''\<rparr> exampleActions
       = Inr [JObject [(''action'', JString ''toString''), (''input'', JUndefined)]]
   \<and> callFunction exampleJSON_parse
         \<lparr>name = Some ''constructor'', arguments = Some ''{not json''\<rparr> exampleActions 0
       = (Inr (JObject [(''action'', JString ''constructor''), (''result'', JObject [])]), 0)
   \<and> gptFunctionCallToWorkflow jp \<lparr>name = Some ''toString'', arguments = t\<rparr> []
       = Inr [JObject [(''action'', JString ''toString''), (''input'', JUndefined)]]
   \<and> callFunction jp \<lparr>name = Some ''constructor'', arguments = t\<rparr> [] s
       = (Inr (JObject [(''action'', JString ''constructor''), (''result'', JObject [])]), s)"
  by (simp add: gptFunctionCallToWorkflow_def callFunction_def actions_get_def
      Object_prototype_def inherited_call_def exampleActions_def exampleJSON_parse_def)

subsection \<open>Length, order and names of the export\<close>

text \<open>
  C4. When \<open>gptFunctions\<close> returns, it returns one descriptor for each entry of the
  registry, in the order of the entries, and the name of the i-th descriptor is the
  \<open>name\<close> of the i-th action when it is set and the i-th key otherwise.
  \<open>gptFunctions\<close> has no failure of its own: it fails only with what the converter
  throws on the validator of a unary action, and returns whenever the converter returns
  on all of them.
\<close>

theorem gptFunctions_length_and_names:
  "(gptFunctions z actions = Inr ds \<longrightarrow>
      length ds = length actions
      \<and> (\<forall>i<length actions.
            getProp (ds ! i) ''name''
              = JString (case action_name (snd (actions ! i)) of
                           Some n \<Rightarrow> n | None \<Rightarrow> fst (actions ! i))))
   \<and> (gptFunctions z actions = Inl e \<longrightarrow>
        (\<exists>key a x. (key, a) \<in> set actions \<and> action_args a = Unary
           \<and> z (action_inputParser a) = Inl x \<and> e = SchemaConversionError x))
   \<and> ((\<forall>key a. (key, a) \<in> set actions \<and> action_args a = Unary \<longrightarrow>
           (\<exists>schema. z (action_inputParser a) = Inr schema)) \<longrightarrow>
        (\<exists>ds'. gptFunctions z actions = Inr ds'))"
proof (intro conjI impI allI)
  assume ok: "gptFunctions z actions = Inr ds"
  then show "length ds = length actions"
    by (simp add: gptFunctions_def Array_map_length)
  fix i assume "i < length actions"
  with ok show "getProp (ds ! i) ''name''
      = JString (case action_name (snd (actions ! i)) of
                   Some n \<Rightarrow> n | None \<Rightarrow> fst (actions ! i))"
    by (intro gptFunction_name [OF gptFunctions_nth])
next
  assume "gptFunctions z actions = Inl e"
  then obtain p where p: "p \<in> set actions" "(\<lambda>(key, a). gptFunction z key a) p = Inl e"
    using Array_map_Inl [of "\<lambda>(key, a). gptFunction z key a" actions e]
    by (auto simp: gptFunctions_def)
  obtain key a where "p = (key, a)" by (cases p)
  with p gptFunction_Inl [of z key a e]
  show "\<exists>key a x. (key, a) \<in> set actions \<and> action_args a = Unary
           \<and> z (action_inputParser a) = Inl x \<and> e = SchemaConversionError x"
    by auto
next
  assume conv: "\<forall>key a. (key, a) \<in> set actions \<and> action_args a = Unary \<longrightarrow>
           (\<exists>schema. z (action_inputParser a) = Inr schema)"
  have "\<exists>y. (\<lambda>(key, a). gptFunction z key a) p = Inr y" if "p \<in> set actions" for p
  proof -
    obtain key a where pa: "p = (key, a)" by (cases p)
    show ?thesis
    proof (cases rule: gptFunction_cases [where a = a and z = z])
      case nullary
      then show ?thesis using pa by (simp add: gptFunction_nullary)
    next
      case (unary schema)
      then show ?thesis using pa by (simp add: gptFunction_unary)
    next
      case (throws x)
      have "\<exists>schema. z (action_inputParser a) = Inr schema"
        using conv that pa throws(1) by blast
      then show ?thesis using throws(2) by simp
    qed
  qed
  then show "\<exists>ds'. gptFunctions z actions = Inr ds'"
    unfolding gptFunctions_def by (rule Array_map_total)
qed

theorem gptFunctions_length_and_names_witness:
  "gptFunctions exampleSchema exampleActions = Inr exampleDescriptors
   \<and> length exampleDescriptors = length exampleActions
   \<and> getProp (exampleDescriptors ! 0) ''name'' = JString ''getWeather''
   \<and> getProp (exampleDescriptors ! 2) ''name'' = JString ''echo''
   \<and> gptFunctions (\<lambda>p. Inl JNull) exampleActions = Inl (SchemaConversionError JNull)"
proof -
  note t = gptFunctions_length_and_names
    [of exampleSchema exampleActions exampleDescriptors MissingNameError]
  from t example_export
  have l: "length exampleDescriptors = length exampleActions"
    and nm: "\<forall>i<length exampleActions. getProp (exampleDescriptors ! i) ''name''
              = JString (case action_name (snd (exampleActions ! i)) of
                           Some n \<Rightarrow> n | None \<Rightarrow> fst (exampleActions ! i))"
    by blast+
  have "getProp (exampleDescriptors ! 0) ''name'' = JString ''getWeather''"
    using nm [rule_format, of 0] by (simp add: exampleActions_def)
  moreover have "getProp (exampleDescriptors ! 2) ''name'' = JString ''echo''"
    using nm [rule_format, of 2] by (simp add: exampleActions_def)
  moreover have "gptFunctions (\<lambda>p. Inl JNull) exampleActions = Inl (SchemaConversionError JNull)"
    by (simp add: gptFunctions_def gptFunction_def exampleActions_def)
  ultimately show ?thesis using l example_export by simp
qed

subsection \<open>Absent arguments\<close>

text \<open>
  C5. An absent \<open>arguments\<close> field is replaced by the text \<open>{}\<close> before
  decoding, in \<open>gptFunctionCallToWorkflow\<close> and in \<open>callFunction\<close>: a call
  record without arguments behaves as the same record with the arguments \<open>{}\<close>.
  So for a unary action whose validator accepts the empty object, where
  \<open>JSON.parse\<close> decodes \<open>{}\<close> to the empty object, the parser succeeds on a
  record without arguments and the input of the step is the validator's result for
  the empty object; the executor invokes the handler with that result. More generally,
  on a record without arguments the executor hands to \<open>call\<close> what the decoder makes
  of \<open>{}\<close>, and both functions report malformed arguments when the decoder rejects
  \<open>{}\<close>.
\<close>

theorem absent_arguments_default_to_empty_object:
  "argumentsText (c\<lparr>arguments := None\<rparr>) = ''{}''
   \<and> gptFunctionCallToWorkflow jp (c\<lparr>arguments := None\<rparr>) actions
       = gptFunctionCallToWorkflow jp (c\<lparr>arguments := Some ''{}''\<rparr>) actions
   \<and> callFunction jp (c\<lparr>arguments := None\<rparr>) actions s
       = callFunction jp (c\<lparr>arguments := Some ''{}''\<rparr>) actions s
   \<and> (name c = Some n \<and> n \<noteq> [] \<and> arguments c = None \<and> map_of actions n = Some a
        \<and> action_args a = Unary \<and> jp ''{}'' = Some (JObject [])
        \<and> parse (action_inputParser a) (JObject []) = Inr w \<longrightarrow>
      gptFunctionCallToWorkflow jp c actions
        = Inr [JObject [(''action'', JString n), (''input'', w)]])
   \<and> (name c = Some n \<and> n \<noteq> [] \<and> arguments c = None \<and> map_of actions n = Some a
        \<and> action_args a = Unary \<and> jp ''{}'' = Some (JObject [])
        \<and> parse (action_inputParser a) (JObject []) = Inr w \<longrightarrow>
      callFunction jp c actions s =
        (case action_handler a [w] s of
           (Inl x, s') \<Rightarrow> (Inl (HandlerError x), s')
         | (Inr r, s') \<Rightarrow> (Inr (JObject [(''action'', JString n), (''result'', r)]), s')))
   \<and> (name c = Some n \<and> n \<noteq> [] \<and> arguments c = None \<and> map_of actions n = Some a
        \<and> action_args a = Unary \<and> jp ''{}'' = Some v \<longrightarrow>
      callFunction jp c actions s =
        (case call a [v] s of
           (Inl e, s') \<Rightarrow> (Inl e, s')
         | (Inr r, s') \<Rightarrow> (Inr (JObject [(''action'', JString n), (''result'', r)]), s')))
   \<and> (name c = Some n \<and> n \<noteq> [] \<and> arguments c = None \<and> map_of actions n = Some a
        \<and> action_args a = Unary \<and> jp ''{}'' = None \<longrightarrow>
      gptFunctionCallToWorkflow jp c actions = Inl MalformedArgumentsError
      \<and> callFunction jp c actions s = (Inl MalformedArgumentsError, s))"
proof -
  have t: "argumentsText (c\<lparr>arguments := None\<rparr>) = ''{}''"
    "argumentsText (c\<lparr>arguments := Some ''{}''\<rparr>) = ''{}''"
    by (simp_all add: argumentsText_def)
  have p: "gptFunctionCallToWorkflow jp (c\<lparr>arguments := None\<rparr>) actions
       = gptFunctionCallToWorkflow jp (c\<lparr>arguments := Some ''{}''\<rparr>) actions"
    unfolding gptFunctionCallToWorkflow_def t by simp
  have x: "callFunction jp (c\<lparr>arguments := None\<rparr>) actions s
       = callFunction jp (c\<lparr>arguments := Some ''{}''\<rparr>) actions s"
    unfolding callFunction_def t by simp
  have d: "argumentsText c = ''{}''" if "arguments c = None"
    using that by (simp add: argumentsText_def)
  have c4: "gptFunctionCallToWorkflow jp c actions
        = Inr [JObject [(''action'', JString n), (''input'', w)]]"
    if "name c = Some n" "n \<noteq> []" "arguments c = None" "map_of actions n = Some a"
      "action_args a = Unary" "jp ''{}'' = Some (JObject [])"
      "parse (action_inputParser a) (JObject []) = Inr w"
    using that d by (intro parse_unary [where v = "JObject []"]) simp_all
  have c5: "callFunction jp c actions s =
        (case action_handler a [w] s of
           (Inl x, s') \<Rightarrow> (Inl (HandlerError x), s')
         | (Inr r, s') \<Rightarrow> (Inr (JObject [(''action'', JString n), (''result'', r)]), s'))"
    if "name c = Some n" "n \<noteq> []" "arguments c = None" "map_of actions n = Some a"
      "action_args a = Unary" "jp ''{}'' = Some (JObject [])"
      "parse (action_inputParser a) (JObject []) = Inr w"
    using that d by (intro exec_unary [where v = "JObject []"]) simp_all
  have c6: "callFunction jp c actions s =
        (case call a [v] s of
           (Inl e, s') \<Rightarrow> (Inl e, s')
         | (Inr r, s') \<Rightarrow> (Inr (JObject [(''action'', JString n), (''result'', r)]), s'))"
    if "name c = Some n" "n \<noteq> []" "arguments c = None" "map_of actions n = Some a"
      "action_args a = Unary" "jp ''{}'' = Some v"
    using that d by (simp add: callFunction_def actions_get_own)
  have c7: "gptFunctionCallToWorkflow jp c actions = Inl MalformedArgumentsError
      \<and> callFunction jp c actions s = (Inl MalformedArgumentsError, s)"
    if "name c = Some n" "n \<noteq> []" "arguments c = None" "map_of actions n = Some a"
      "action_args a = Unary" "jp ''{}'' = None"
    using that d parse_malformed [of c n actions a jp] exec_malformed [of c n actions a jp s]
    by simp
  show ?thesis
    apply (intro conjI impI)
          apply (rule t(1))
         apply (rule p)
        apply (rule x)
       apply (elim conjE, erule (6) c4)
      apply (elim conjE, erule (6) c5)
     apply (elim conjE, erule (5) c6)
    apply (elim conjE, erule (5) c7 [THEN conjunct1])
    apply (elim conjE, erule (5) c7 [THEN conjunct2])
    done
qed

theorem absent_arguments_default_to_empty_object_witness:
  "map_option action_args (map_of exampleActions ''anything'') = Some Unary
   \<and> exampleJSON_parse ''{}'' = Some (JObject [])
   \<and> parse anyParser (JObject []) = Inr (JObject [])
   \<and> gptFunctionCallToWorkflow exampleJSON_parse \<lparr>name = Some ''anything'', arguments = None\<rparr>
        exampleActions
      = Inr [JObject [(''action'', JString ''anything''), (''input'', JObject [])]]
   \<and> callFunction exampleJSON_parse \<lparr>name = Some ''anything'', arguments = None\<rparr>
        exampleActions 0
      = (Inr (JObject [(''action'', JString ''anything''), (''result'', JNull)]), 1)
   \<and> callFunction exampleJSON_parse \<lparr>name = Some ''anything'', arguments = None\<rparr>
        exampleActions 0
      = callFunction exampleJSON_parse \<lparr>name = Some ''anything'', arguments = Some ''{}''\<rparr>
          exampleActions 0"
proof -
  let ?a = "\<lparr>action_name = Some ''echo'', action_description = None,
         action_args = Unary, action_inputParser = anyParser,
         action_handler = countingHandler JNull\<rparr>"
  have look: "map_of exampleActions ''anything'' = Some ?a"
    by (simp add: exampleActions_def)
  have js: "exampleJSON_parse ''{}'' = Some (JObject [])"
    by (simp add: exampleJSON_parse_def)
  have ps: "parse anyParser (JObject []) = Inr (JObject [])"
    by (simp add: anyParser_def)
  let ?c = "\<lparr>name = Some ''anything'', arguments = None\<rparr>"
  have hyp: "name ?c = Some ''anything'' \<and> ''anything'' \<noteq> [] \<and> arguments ?c = None
      \<and> map_of exampleActions ''anything'' = Some ?a \<and> action_args ?a = Unary
      \<and> exampleJSON_parse ''{}'' = Some (JObject [])
      \<and> parse (action_inputParser ?a) (JObject []) = Inr (JObject [])"
    using look js ps by simp
  note t = absent_arguments_default_to_empty_object
        [of ?c exampleJSON_parse exampleActions "0::nat" "''anything''" ?a "JObject []"
          "JObject []"]
  have p: "gptFunctionCallToWorkflow exampleJSON_parse ?c exampleActions
      = Inr [JObject [(''action'', JString ''anything''), (''input'', JObject [])]]"
    using hyp t by blast
  have "callFunction exampleJSON_parse ?c exampleActions 0 =
        (case action_handler ?a [JObject []] 0 of
           (Inl x, s') \<Rightarrow> (Inl (HandlerError x), s')
         | (Inr r, s') \<Rightarrow>
             (Inr (JObject [(''action'', JString ''anything''), (''result'', r)]), s'))"
    using hyp t by blast
  then have x: "callFunction exampleJSON_parse ?c exampleActions 0
      = (Inr (JObject [(''action'', JString ''anything''), (''result'', JNull)]), 1)"
    by (simp add: countingHandler_def)
  have e: "callFunction exampleJSON_parse ?c exampleActions 0
      = callFunction exampleJSON_parse \<lparr>name = Some ''anything'', arguments = Some ''{}''\<rparr>
          exampleActions 0"
    using t by simp
  from look js ps p x e show ?thesis by simp
qed

subsection \<open>The dialect field of a schema\<close>

text \<open>
  C6. For a unary action, the \<open>parameters\<close> of its exported descriptor never have
  the property \<open>$schema\<close>, whatever object the converter returns; its keys are the
  keys of that object other than \<open>$schema\<close>, and (an object has no key twice) its
  properties are those of that object, unchanged and in the same order.
\<close>

theorem unary_parameters_omit_schema_field:
  "gptFunctions z actions = Inr ds \<and> i < length actions
     \<and> action_args (snd (actions ! i)) = Unary \<longrightarrow>
   (\<exists>schema ps. z (action_inputParser (snd (actions ! i))) = Inr schema
      \<and> getProp (ds ! i) ''parameters'' = JObject ps
      \<and> \<not> hasOwn (JObject ps) ''$schema''
      \<and> fst ` set ps = fst ` set schema - {''$schema''}
      \<and> (distinct (map fst schema) \<longrightarrow> ps = filter (\<lambda>(k, v). k \<noteq> ''$schema'') schema))"
proof (intro impI, elim conjE)
  let ?a = "snd (actions ! i)"
  let ?keep = "filter (\<lambda>(k, v). k \<noteq> ''$schema'')"
  assume ok: "gptFunctions z actions = Inr ds" and i: "i < length actions"
    and un: "action_args ?a = Unary"
  have d: "gptFunction z (fst (actions ! i)) ?a = Inr (ds ! i)"
    using ok i by (rule gptFunctions_nth)
  then obtain schema where sch: "z (action_inputParser ?a) = Inr schema"
    using un by (cases rule: gptFunction_cases [where a = ?a and z = z])
      (auto simp: gptFunction_throws)
  let ?ps = "Object_fromEntries (?keep schema)"
  have g: "getProp (ds ! i) ''parameters'' = JObject ?ps"
    using d un sch by (rule gptFunction_parameters_unary)
  have keys: "fst ` set ?ps = fst ` set schema - {''$schema''}"
    by (auto simp: fromEntries_keys)
  have absent: "\<not> hasOwn (JObject ?ps) ''$schema''"
    using keys by (simp add: hasOwn_def)
  have same: "?ps = ?keep schema" if "distinct (map fst schema)"
    using that by (simp add: fromEntries_distinct distinct_map_filter)
  from sch g absent keys same show "\<exists>schema ps. z (action_inputParser ?a) = Inr schema
      \<and> getProp (ds ! i) ''parameters'' = JObject ps
      \<and> \<not> hasOwn (JObject ps) ''$schema''
      \<and> fst ` set ps = fst ` set schema - {''$schema''}
      \<and> (distinct (map fst schema) \<longrightarrow> ps = ?keep schema)"
    by blast
qed

theorem unary_parameters_omit_schema_field_witness:
  "exampleSchema locationParser
     = Inr [(''type'', JString ''object''),
            (''properties'', JObject []),
            (''$schema'', JString ''http://json-schema.org/draft-07/schema#''),
            (''additionalProperties'', JBoolean False)]
   \<and> gptFunctions exampleSchema exampleActions = Inr exampleDescriptors
   \<and> action_args (snd (exampleActions ! 0)) = Unary
   \<and> getProp (exampleDescriptors ! 0) ''parameters''
       = JObject [(''type'', JString ''object''), (''properties'', JObject []),
                  (''additionalProperties'', JBoolean False)]"
proof -
  have u: "action_args (snd (exampleActions ! 0)) = Unary" "0 < length exampleActions"
    "action_inputParser (snd (exampleActions ! 0)) = locationParser"
    by (simp_all add: exampleActions_def)
  have s: "exampleSchema locationParser
     = Inr [(''type'', JString ''object''),
            (''properties'', JObject []),
            (''$schema'', JString ''http://json-schema.org/draft-07/schema#''),
            (''additionalProperties'', JBoolean False)]"
    by (simp add: exampleSchema_def)
  from unary_parameters_omit_schema_field [of exampleSchema exampleActions exampleDescriptors 0]
    example_export u
  obtain schema ps where
    "exampleSchema locationParser = Inr schema"
    "getProp (exampleDescriptors ! 0) ''parameters'' = JObject ps"
    "distinct (map fst schema) \<longrightarrow> ps = filter (\<lambda>(k, v). k \<noteq> ''$schema'') schema"
    by force
  with s have "getProp (exampleDescriptors ! 0) ''parameters''
            = JObject [(''type'', JString ''object''), (''properties'', JObject []),
                       (''additionalProperties'', JBoolean False)]"
    by auto
  with u s example_export show ?thesis by simp
qed

subsection \<open>The parameters of a nullary action\<close>

text \<open>
  C7. For a nullary action, the \<open>parameters\<close> of its exported descriptor are
  exactly \<open>{type: 'object', properties: {}, required: []}\<close>: this holds of the
  descriptor built for the entry, and of its place in the list that
  \<open>gptFunctions\<close> returns.
\<close>

theorem nullary_parameters_empty_object_schema:
  "(action_args a = Nullary \<longrightarrow>
      (\<exists>d. gptFunction z key a = Inr d
         \<and> getProp d ''parameters''
             = JObject [(''type'', JString ''object''),
                        (''properties'', JObject []),
                        (''required'', JArray [])]))
   \<and> (gptFunctions z actions = Inr ds \<and> i < length actions
        \<and> action_args (snd (actions ! i)) = Nullary \<longrightarrow>
      getProp (ds ! i) ''parameters''
        = JObject [(''type'', JString ''object''),
                   (''properties'', JObject []),
                   (''required'', JArray [])])"
proof (intro conjI impI; (elim conjE)?)
  assume "action_args a = Nullary"
  then show "\<exists>d. gptFunction z key a = Inr d
         \<and> getProp d ''parameters''
             = JObject [(''type'', JString ''object''),
                        (''properties'', JObject []),
                        (''required'', JArray [])]"
    by (simp add: gptFunction_nullary getProp_def)
next
  assume ok: "gptFunctions z actions = Inr ds" and i: "i < length actions"
    and nu: "action_args (snd (actions ! i)) = Nullary"
  have "gptFunction z (fst (actions ! i)) (snd (actions ! i)) = Inr (ds ! i)"
    using ok i by (rule gptFunctions_nth)
  then show "getProp (ds ! i) ''parameters''
        = JObject [(''type'', JString ''object''),
                   (''properties'', JObject []),
                   (''required'', JArray [])]"
    using nu by (rule gptFunction_parameters_nullary)
qed

theorem nullary_parameters_empty_object_schema_witness:
  "gptFunctions exampleSchema exampleActions = Inr exampleDescriptors
   \<and> action_args (snd (exampleActions ! 1)) = Nullary
   \<and> getProp (exampleDescriptors ! 1) ''parameters''
       = JObject [(''type'', JString ''object''), (''properties'', JObject []),
                  (''required'', JArray [])]"
proof -
  have u: "action_args (snd (exampleActions ! 1)) = Nullary" "1 < length exampleActions"
    by (simp_all add: exampleActions_def)
  from nullary_parameters_empty_object_schema
    [of "snd (exampleActions ! 1)" exampleSchema "''ping''" exampleActions exampleDescriptors 1]
    example_export u
  show ?thesis by blast
qed

subsection \<open>Who invokes the handler\<close>

text \<open>
  C8. The parser never invokes a handler, and a successful call of the executor is to
  be exactly one invocation of the handler of the resolved action. It is not at a name
  that the registry only inherits: for \<open>toString\<close> the executor succeeds with the
  result \<open>'[object Undefined]'\<close> of \<open>Object.prototype.toString\<close>, and no handler of
  the registry is invoked. On the registry above, where every handler counts its
  invocations, the count stays 0; on the empty registry, which has no handler at all,
  the executor succeeds for every decoder, arguments text and state.
\<close>

theorem callFunction_succeeds_without_handler:
  "map_of exampleActions ''toString'' = None
   \<and> callFunction exampleJSON_parse \<lparr>name = Some ''toString'', arguments = None\<rparr>
        exampleActions 0
       = (Inr (JObject [(''action'', JString ''toString''),
                        (''result'', JString ''[object Undefined]'')]), 0)
   \<and> callFunction jp \<lparr>name = Some ''toString'', arguments = t\<rparr> [] s
       = (Inr (JObject [(''action'', JString ''toString''),
                        (''result'', JString ''[object Undefined]'')]), s)"
  by (simp add: gptFunctionCallToWorkflow_def callFunction_def actions_get_def
      Object_prototype_def inherited_call_def exampleActions_def exampleJSON_parse_def)

subsection \<open>Empty names\<close>

text \<open>
  C9. A call record whose name is the empty string is treated by
  \<open>gptFunctionCallToWorkflow\<close> and by \<open>callFunction\<close> exactly like a record without
  a name: both fail with the missing-name error, whatever the registry holds, and the
  executor leaves the state as it was.
\<close>

theorem empty_name_is_missing_name:
  "gptFunctionCallToWorkflow jp \<lparr>name = Some [], arguments = t\<rparr> actions
     = Inl MissingNameError
   \<and> gptFunctionCallToWorkflow jp \<lparr>name = None, arguments = t\<rparr> actions
     = Inl MissingNameError
   \<and> callFunction jp \<lparr>name = Some [], arguments = t\<rparr> actions s
     = (Inl MissingNameError, s)
   \<and> callFunction jp \<lparr>name = None, arguments = t\<rparr> actions s
     = (Inl MissingNameError, s)"
  by (simp add: gptFunctionCallToWorkflow_def callFunction_def)

subsection \<open>Nullary actions and the arguments text\<close>

text \<open>
  C10. For a nullary action both functions ignore the arguments of the call record: the
  parser returns the step and the executor invokes the handler with no arguments,
  whatever the arguments text is and whatever the decoder would say of it. The error
  for malformed arguments arises, in either function, only for a unary action whose
  arguments text the decoder rejects.
\<close>

theorem nullary_never_decodes_arguments:
  "(name c = Some n \<and> n \<noteq> [] \<and> map_of actions n = Some a \<and> action_args a = Nullary \<longrightarrow>
      gptFunctionCallToWorkflow jp c actions
        = Inr [JObject [(''action'', JString n), (''input'', JUndefined)]]
      \<and> callFunction jp c actions s =
          (case action_handler a [] s of
             (Inl x, s') \<Rightarrow> (Inl (HandlerError x), s')
           | (Inr r, s') \<Rightarrow> (Inr (JObject [(''action'', JString n), (''result'', r)]), s')))
   \<and> (gptFunctionCallToWorkflow jp c actions = Inl MalformedArgumentsError
        \<or> fst (callFunction jp c actions s) = Inl MalformedArgumentsError \<longrightarrow>
      (\<exists>m b. name c = Some m \<and> map_of actions m = Some b \<and> action_args b = Unary
         \<and> jp (argumentsText c) = None))"
proof (cases rule: call_stage_cases [where c = c and actions = actions and jp = jp])
  case missing
  then show ?thesis by (auto simp: parse_missing exec_missing)
next
  case (unknown m)
  then show ?thesis by (auto simp: parse_unknown exec_unknown)
next
  case (inherited m)
  then show ?thesis
    using inherited_call_cases [of m] by (auto simp: parse_inherited exec_inherited)
next
  case (malformed m b)
  then show ?thesis by (auto simp: parse_malformed exec_malformed)
next
  case (invalid m b u d')
  then show ?thesis by (auto simp: parse_invalid exec_invalid)
next
  case (unary m b u w)
  then show ?thesis
    by (auto simp: parse_unary exec_unary split: prod.splits sum.splits)
next
  case (nullary m b)
  then show ?thesis
    by (auto simp: parse_nullary exec_nullary split: prod.splits sum.splits)
qed

theorem nullary_never_decodes_arguments_witness:
  "map_option action_args (map_of exampleActions ''ping'') = Some Nullary
   \<and> exampleJSON_parse ''{not json'' = None
   \<and> gptFunctionCallToWorkflow exampleJSON_parse
        \<lparr>name = Some ''ping'', arguments = Some ''{not json''\<rparr> exampleActions
      = Inr [JObject [(''action'', JString ''ping''), (''input'', JUndefined)]]
   \<and> callFunction exampleJSON_parse
        \<lparr>name = Some ''ping'', arguments = Some ''{not json''\<rparr> exampleActions 0
      = (Inr (JObject [(''action'', JString ''ping''), (''result'', JString ''pong'')]), 1)
   \<and> gptFunctionCallToWorkflow exampleJSON_parse
        \<lparr>name = Some ''getWeather'', arguments = Some ''{not json''\<rparr> exampleActions
      = Inl MalformedArgumentsError
   \<and> map_option action_args (map_of exampleActions ''getWeather'') = Some Unary"
proof -
  let ?p = "\<lparr>action_name = None, action_description = None,
         action_args = Nullary, action_inputParser = anyParser,
         action_handler = countingHandler (JString ''pong'')\<rparr>"
  let ?c = "\<lparr>name = Some ''getWeather'', arguments = Some ''{not json''\<rparr>"
  have look: "map_of exampleActions ''ping'' = Some ?p"
    by (simp add: exampleActions_def)
  have js: "exampleJSON_parse ''{not json'' = None"
    by (simp add: exampleJSON_parse_def)
  have m: "gptFunctionCallToWorkflow exampleJSON_parse ?c exampleActions
      = Inl MalformedArgumentsError"
    by (simp add: gptFunctionCallToWorkflow_def actions_get_def exampleActions_def
        argumentsText_def js)
  have "\<exists>m b. name ?c = Some m \<and> map_of exampleActions m = Some b \<and> action_args b = Unary"
    using m nullary_never_decodes_arguments [of ?c _ exampleActions _ exampleJSON_parse]
    by blast
  then have u: "map_option action_args (map_of exampleActions ''getWeather'') = Some Unary"
    by auto
  show ?thesis
    using look js m u
      nullary_never_decodes_arguments
        [of "\<lparr>name = Some ''ping'', arguments = Some ''{not json''\<rparr>" "''ping''"
          exampleActions ?p exampleJSON_parse 0]
    by (simp add: countingHandler_def)
qed

end
